theory Spec2Isabelle
  imports Main "HOL-Library.Multiset"
begin

section \<open>Data model\<close>

text \<open>
  The three MongoDB collections of the Fritter backend (users, freets, upvotes) and the
  operations of \<^verbatim>\<open>server/user/collection.ts\<close>, \<^verbatim>\<open>server/upvote/collection.ts\<close>,
  \<^verbatim>\<open>server/upvote/middleware.ts\<close>, \<^verbatim>\<open>server/upvote/router.ts\<close>,
  \<^verbatim>\<open>server/upvote/util.ts\<close> and \<^verbatim>\<open>server/freet/router.ts\<close>.

  A collection is the list of its documents in insertion order. An \<^verbatim>\<open>ObjectId\<close> is modelled by
  the string its \<^verbatim>\<open>toString()\<close> renders, 24 lower-case hexadecimal digits: the \<^verbatim>\<open>_id\<close> of a
  stored document and the references of an Upvote are such renderings. A string that arrives
  with a request (a route parameter, the session's user id) is any string; where the code hands
  one to a query on \<^verbatim>\<open>_id\<close> or stores it on a path of type \<^verbatim>\<open>ObjectId\<close>, Mongoose casts it
  (\<open>castObjectId\<close> below), and where the code keeps it as a string (the entries of
  \<^verbatim>\<open>upvotedFreets\<close>) it stays as it was spelt. Every \<^verbatim>\<open>await\<close> is sequential: one request
  runs at a time.
\<close>

type_synonym ObjectId = string

text \<open>A JavaScript \<^verbatim>\<open>Date\<close>, by the accessors the code reads.\<close>

record Date =
  getFullYear :: int
  getMonth :: int
  getDate :: int
  getTime :: int

text \<open>\<^verbatim>\<open>server/user/model.ts\<close>, type \<^verbatim>\<open>User\<close>.\<close>

record User =
  user_id :: ObjectId
  username :: string
  password :: string
  dateJoined :: Date
  birthday :: Date
  underage :: bool
  upvotedFreets :: "string list"

text \<open>\<^verbatim>\<open>server/upvote/model.ts\<close>, type \<^verbatim>\<open>Upvote\<close>.\<close>

record Upvote =
  upvote_id :: ObjectId
  freetId :: ObjectId
  authorId :: ObjectId
  dateCreated :: Date

text \<open>
  Modelled from the spec: the Freet type of \<^verbatim>\<open>server/freet/model.ts\<close>, which is not among the
  sources. Section 3 of the specification lists its fields: author reference, text content,
  creation and modification timestamps, the self-flagged marker and the list of flag reasons.
\<close>

record Freet =
  freet_id :: ObjectId
  freet_authorId :: ObjectId
  content :: string
  freet_dateCreated :: Date
  dateModified :: Date
  selfFlagged :: bool
  flags :: "string list"

record db =
  users :: "User list"
  freets :: "Freet list"
  upvotes :: "Upvote list"

text \<open>
  Reading a property of \<^verbatim>\<open>null\<close> throws a \<^verbatim>\<open>TypeError\<close>; a query whose id does not cast
  rejects with a \<^verbatim>\<open>CastError\<close>; saving a document whose required reference did not cast
  rejects with a \<^verbatim>\<open>ValidationError\<close>.
\<close>

datatype error = TypeError | CastError | ValidationError

section \<open>JavaScript arrays and strings\<close>

text \<open>\<^verbatim>\<open>Array.prototype.indexOf\<close>: the first index holding the element, or \<open>-1\<close>.\<close>

fun indexOf :: "'a list \<Rightarrow> 'a \<Rightarrow> int" where
  "indexOf [] x = - 1"
| "indexOf (y # ys) x =
     (if y = x then 0
      else (let i = indexOf ys x in if i < 0 then - 1 else i + 1))"

text \<open>
  \<^verbatim>\<open>Array.prototype.splice(start, deleteCount)\<close> with no inserted items: a negative start
  counts from the end and is clamped at 0, a start past the end is clamped at the length.
\<close>

definition Array_splice :: "int \<Rightarrow> nat \<Rightarrow> 'a list \<Rightarrow> 'a list" where
  "Array_splice start deleteCount xs =
     (let len = int (length xs);
          s = nat (if start < 0 then max (len + start) 0 else min start len)
      in take s xs @ drop (s + deleteCount) xs)"

text \<open>A string that may be \<^verbatim>\<open>undefined\<close> is truthy when it is defined and not empty.\<close>

definition truthy :: "string option \<Rightarrow> bool" where
  "truthy s = (case s of None \<Rightarrow> False | Some v \<Rightarrow> v \<noteq> [])"

section \<open>Casting strings to ObjectIds\<close>

definition isHexDigit :: "char \<Rightarrow> bool" where
  "isHexDigit c = (c \<in> set ''0123456789abcdefABCDEF'')"

definition lowerHex :: "char \<Rightarrow> char" where
  "lowerHex c = (case map_of (zip ''ABCDEF'' ''abcdef'') c of Some l \<Rightarrow> l | None \<Rightarrow> c)"

definition hexDigitOf :: "nat \<Rightarrow> char" where
  "hexDigitOf n = ''0123456789abcdef'' ! (n mod 16)"

definition byteHex :: "char \<Rightarrow> string" where
  "byteHex c = [hexDigitOf (of_char c div 16), hexDigitOf (of_char c)]"

text \<open>
  \<^verbatim>\<open>new ObjectId(s)\<close> for a string, which Mongoose calls to cast: 24 hexadecimal digits in
  either case name the id they spell, and \<^verbatim>\<open>toString()\<close> renders it in lower case; 12
  characters of one byte each stand for the 12 bytes of the id; every other string is refused.
  Two spellings can so name one id.
\<close>

definition castObjectId :: "string \<Rightarrow> ObjectId option" where
  "castObjectId s =
     (if length s = 24 \<and> list_all isHexDigit s then Some (map lowerHex s)
      else if length s = 12 \<and> list_all (\<lambda>c. of_char c < (128 :: nat)) s
      then Some (concat (map byteHex s))
      else None)"

section \<open>The document store\<close>

text \<open>
  \<^verbatim>\<open>Model.deleteOne(filter)\<close> removes the first document that matches and resolves to a
  result object carrying the number of deleted documents. The result is modelled as an
  option so that the comparison with \<^verbatim>\<open>null\<close> the callers make can be written; the driver
  never resolves to \<^verbatim>\<open>null\<close>.
\<close>

record DeleteResult =
  deletedCount :: nat

fun deleteFirst :: "('a \<Rightarrow> bool) \<Rightarrow> 'a list \<Rightarrow> 'a list" where
  "deleteFirst P [] = []"
| "deleteFirst P (x # xs) = (if P x then xs else x # deleteFirst P xs)"

definition Model_deleteOne :: "('a \<Rightarrow> bool) \<Rightarrow> 'a list \<Rightarrow> DeleteResult option \<times> 'a list" where
  "Model_deleteOne P xs =
     (Some \<lparr>deletedCount = (if list_ex P xs then 1 else 0)\<rparr>, deleteFirst P xs)"

text \<open>\<^verbatim>\<open>Model.deleteMany(filter)\<close> removes every document that matches.\<close>

definition Model_deleteMany :: "('a \<Rightarrow> bool) \<Rightarrow> 'a list \<Rightarrow> 'a list" where
  "Model_deleteMany P xs = filter (\<lambda>x. \<not> P x) xs"

text \<open>\<^verbatim>\<open>author.save()\<close> on a document read from the store writes it back under its \<^verbatim>\<open>_id\<close>.\<close>

definition save_user :: "User \<Rightarrow> db \<Rightarrow> db" where
  "save_user u d = d\<lparr>users := map (\<lambda>v. if user_id v = user_id u then u else v) (users d)\<rparr>"

section \<open>UserCollection\<close>



text \<open>
  \<^verbatim>\<open>UserCollection.findOneByUserId\<close>: \<^verbatim>\<open>UserModel.findOne({_id: userId})\<close> casts the id; it
  resolves to the user, or to \<^verbatim>\<open>null\<close> when no user has the id.
\<close>

definition UserCollection_findOneByUserId :: "db \<Rightarrow> string \<Rightarrow> error + User option" where
  "UserCollection_findOneByUserId d userId =
     (case castObjectId userId of
        None \<Rightarrow> Inl CastError
      | Some oid \<Rightarrow> Inr (find (\<lambda>u. user_id u = oid) (users d)))"

text \<open>
  An operation that writes returns what it resolves to, or the exception it rejects with,
  together with the store as the operation leaves it: a write made before the exception stays.
\<close>


definition UserCollection_deleteOne :: "string \<Rightarrow> db \<Rightarrow> (error + bool) \<times> db" where
  "UserCollection_deleteOne userId d =
     (case castObjectId userId of
        None \<Rightarrow> (Inl CastError, d)
      | Some oid \<Rightarrow>
          (let (user, us) = Model_deleteOne (\<lambda>u. user_id u = oid) (users d)
           in (Inr (user \<noteq> None), d\<lparr>users := us\<rparr>)))"

section \<open>UpvoteCollection\<close>

text \<open>
  \<^verbatim>\<open>populate('authorId')\<close> replaces the author reference by the user document, or by
  \<^verbatim>\<open>null\<close> when no user has that id.
\<close>

type_synonym PopulatedUpvote = "Upvote \<times> User option"

definition populate_authorId :: "db \<Rightarrow> Upvote \<Rightarrow> PopulatedUpvote" where
  "populate_authorId d v = (v, find (\<lambda>u. user_id u = authorId v) (users d))"

text \<open>
  \<^verbatim>\<open>UpvoteCollection.addOne\<close>. The identifier of the new document and the clock reading are
  arguments. The constructor casts \<^verbatim>\<open>freetId\<close> and \<^verbatim>\<open>authorId\<close> to ObjectIds, and a reference
  that does not cast fails the validation of \<^verbatim>\<open>upvote.save()\<close>. The author query rejects on an
  id that does not cast, and a null author throws, both before anything is written. The string
  pushed onto \<^verbatim>\<open>upvotedFreets\<close> is the freet id as it was handed in, and the author is saved
  before the upvote is.
\<close>

definition UpvoteCollection_addOne ::
  "ObjectId \<Rightarrow> Date \<Rightarrow> string \<Rightarrow> string \<Rightarrow> db \<Rightarrow> (error + PopulatedUpvote) \<times> db" where
  "UpvoteCollection_addOne newId date fid aid d =
     (let cast_freetId = castObjectId fid;
          cast_authorId = castObjectId aid
      in case UserCollection_findOneByUserId d aid of
           Inl e \<Rightarrow> (Inl e, d)
         | Inr None \<Rightarrow> (Inl TypeError, d)
         | Inr (Some author) \<Rightarrow>
             (let author' = author\<lparr>upvotedFreets := upvotedFreets author @ [fid]\<rparr>;
                  d1 = save_user author' d
              in case (cast_freetId, cast_authorId) of
                   (Some freet_oid, Some author_oid) \<Rightarrow>
                     (let upvote = \<lparr>upvote_id = newId, freetId = freet_oid,
                                     authorId = author_oid, dateCreated = date\<rparr>;
                          d2 = d1\<lparr>upvotes := upvotes d1 @ [upvote]\<rparr>
                      in (Inr (populate_authorId d2 upvote), d2))
                 | _ \<Rightarrow> (Inl ValidationError, d1)))"

definition UpvoteCollection_findOne :: "db \<Rightarrow> string \<Rightarrow> error + PopulatedUpvote option" where
  "UpvoteCollection_findOne d upvoteId =
     (case castObjectId upvoteId of
        None \<Rightarrow> Inl CastError
      | Some oid \<Rightarrow>
          Inr (map_option (populate_authorId d) (find (\<lambda>v. upvote_id v = oid) (upvotes d))))"

text \<open>
  \<^verbatim>\<open>UpvoteCollection.findAll\<close> sorts on \<^verbatim>\<open>dateModified\<close>, a field no upvote has: every
  document ties, and the stored order is returned.
\<close>

definition UpvoteCollection_findAll :: "db \<Rightarrow> PopulatedUpvote list" where
  "UpvoteCollection_findAll d = map (populate_authorId d) (upvotes d)"

text \<open>
  \<^verbatim>\<open>UpvoteCollection.deleteOne\<close>. The third argument is \<^verbatim>\<open>freetId.toString()\<close>. The list is
  spliced and the author saved before \<^verbatim>\<open>UpvoteModel.deleteOne({_id: upvoteId})\<close> casts the
  upvote id.
\<close>

definition UpvoteCollection_deleteOne ::
  "string \<Rightarrow> string \<Rightarrow> string \<Rightarrow> db \<Rightarrow> (error + bool) \<times> db" where
  "UpvoteCollection_deleteOne upvoteId aid fid d =
     (case UserCollection_findOneByUserId d aid of
        Inl e \<Rightarrow> (Inl e, d)
      | Inr None \<Rightarrow> (Inl TypeError, d)
      | Inr (Some author) \<Rightarrow>
          (let author' = author\<lparr>upvotedFreets :=
                 Array_splice (indexOf (upvotedFreets author) fid) 1 (upvotedFreets author)\<rparr>;
               d1 = save_user author' d
           in case castObjectId upvoteId of
                None \<Rightarrow> (Inl CastError, d1)
              | Some oid \<Rightarrow>
                  (let (upvote, ups) = Model_deleteOne (\<lambda>v. upvote_id v = oid) (upvotes d1)
                   in (Inr (upvote \<noteq> None), d1\<lparr>upvotes := ups\<rparr>))))"


definition UpvoteCollection_deleteManyByFreetId ::
  "string \<Rightarrow> string \<Rightarrow> db \<Rightarrow> (error + unit) \<times> db" where
  "UpvoteCollection_deleteManyByFreetId fid aid d =
     (case UserCollection_findOneByUserId d aid of
        Inl e \<Rightarrow> (Inl e, d)
      | Inr None \<Rightarrow> (Inl TypeError, d)
      | Inr (Some author) \<Rightarrow>
          (let author' = author\<lparr>upvotedFreets :=
                 Array_splice (indexOf (upvotedFreets author) fid) 1 (upvotedFreets author)\<rparr>;
               d1 = save_user author' d
           in case castObjectId fid of
                None \<Rightarrow> (Inl CastError, d1)
              | Some oid \<Rightarrow>
                  (Inr (), d1\<lparr>upvotes := Model_deleteMany (\<lambda>v. freetId v = oid) (upvotes d1)\<rparr>)))"

text \<open>
  The freets a user has live upvotes for, one entry per Upvote record and each as
  \<^verbatim>\<open>toString()\<close> renders it, and the two readings of "the list on the User is in sync with the
  Upvote records": the same members, and the same members with the same numbers of
  occurrences. Membership is equality of strings, the test \<^verbatim>\<open>includes\<close> and \<^verbatim>\<open>indexOf\<close> make.
\<close>

definition upvotedBy :: "db \<Rightarrow> ObjectId \<Rightarrow> ObjectId list" where
  "upvotedBy d uid = map freetId (filter (\<lambda>v. authorId v = uid) (upvotes d))"

definition inv_member :: "db \<Rightarrow> bool" where
  "inv_member d =
     list_all (\<lambda>u. set (upvotedFreets u) = set (upvotedBy d (user_id u))) (users d)"


section \<open>Requests, responses and middleware\<close>

text \<open>
  The parts of an Express request the routes read. The body is the list of its properties
  in enumeration order.
\<close>

record Request =
  session_userId :: "string option"
  params_freetId :: "string option"
  params_upvoteId :: "string option"
  query_author :: "string option"
  body :: "(string \<times> string) list"

datatype json = JString string | JArray "json list" | JObject "(string \<times> json) list"

text \<open>
  What a request ends in: \<^verbatim>\<open>res.status(n).json(b)\<close>; an exception thrown inside an async
  handler, which Express does not answer; or a handler that returns without answering and
  without calling \<^verbatim>\<open>next()\<close>.
\<close>

datatype Outcome = Json nat json | Threw error | NoReply

text \<open>
  Libraries the code calls: moment's \<^verbatim>\<open>format('MMMM Do YYYY, h:mm:ss a')\<close>, and the test
  \<^verbatim>\<open>new RegExp(`^${pattern}$`, 'i')\<close> makes of a stored username.
\<close>

record lib =
  formatDate :: "Date \<Rightarrow> string"
  usernameRegExp :: "string \<Rightarrow> string \<Rightarrow> bool"

text \<open>A middleware answers the request (\<open>Some\<close>) or calls \<^verbatim>\<open>next()\<close> (\<open>None\<close>).\<close>

type_synonym Middleware = "Request \<Rightarrow> db \<Rightarrow> Outcome option"

fun chain :: "Middleware list \<Rightarrow> (Request \<Rightarrow> db \<Rightarrow> Outcome \<times> db) \<Rightarrow> Request \<Rightarrow> db \<Rightarrow> Outcome \<times> db" where
  "chain [] handler req d = handler req d"
| "chain (m # ms) handler req d =
     (case m req d of Some out \<Rightarrow> (out, d) | None \<Rightarrow> chain ms handler req d)"

text \<open>\<^verbatim>\<open>xs.map(f)\<close> where \<open>f\<close> may throw: the first exception ends the map.\<close>

fun Array_map :: "('a \<Rightarrow> error + 'b) \<Rightarrow> 'a list \<Rightarrow> error + 'b list" where
  "Array_map f [] = Inr []"
| "Array_map f (x # xs) =
     (case f x of
        Inl e \<Rightarrow> Inl e
      | Inr y \<Rightarrow> (case Array_map f xs of Inl e \<Rightarrow> Inl e | Inr ys \<Rightarrow> Inr (y # ys)))"

text \<open>
  \<^verbatim>\<open>String.prototype.trim\<close> on the code units below 256: tab, line feed, vertical tab, form
  feed, carriage return, space and no-break space are white space.
\<close>

definition isWhiteSpace :: "char \<Rightarrow> bool" where
  "isWhiteSpace c = (of_char c \<in> {9, 10, 11, 12, 13, 32, 160 :: nat})"

definition trim :: "string \<Rightarrow> string" where
  "trim s = rev (dropWhile isWhiteSpace (rev (dropWhile isWhiteSpace s)))"

text \<open>
  \<^verbatim>\<open>Types.ObjectId.isValid\<close> on a request parameter: a string of 12 characters or of 24
  hexadecimal digits; \<^verbatim>\<open>undefined\<close> is not valid.
\<close>

definition ObjectId_isValid :: "string option \<Rightarrow> bool" where
  "ObjectId_isValid p =
     (case p of
        None \<Rightarrow> False
      | Some s \<Rightarrow> length s = 12 \<or> (length s = 24 \<and> list_all isHexDigit s))"

definition error_envelope :: "string \<Rightarrow> json" where
  "error_envelope msg = JObject [(''error'', JString msg)]"

definition UserCollection_findOneByUsername :: "lib \<Rightarrow> db \<Rightarrow> string \<Rightarrow> User option" where
  "UserCollection_findOneByUsername L d uname =
     find (\<lambda>u. usernameRegExp L (trim uname) (username u)) (users d)"

section \<open>Upvote middleware, formatter and routes\<close>

text \<open>\<^verbatim>\<open>server/upvote/middleware.ts\<close>.\<close>

definition isUpvoteExists :: Middleware where
  "isUpvoteExists req d =
     (let validFormat = ObjectId_isValid (params_upvoteId req)
      in case (if validFormat then UpvoteCollection_findOne d (the (params_upvoteId req))
               else Inr None) of
           Inl e \<Rightarrow> Some (Threw e)
         | Inr (Some _) \<Rightarrow> None
         | Inr None \<Rightarrow> Some (Json 404 (JObject [(''error'', JObject [(''upvoteNotFound'',
             JString (''Upvote with upvote ID ''
               @ (case params_upvoteId req of None \<Rightarrow> ''undefined'' | Some i \<Rightarrow> i)
               @ '' does not exist.''))])])))"

definition isFreetUpvotedbyUser :: Middleware where
  "isFreetUpvotedbyUser req d =
     (case (case session_userId req of
              None \<Rightarrow> Inr None
            | Some uid \<Rightarrow> UserCollection_findOneByUserId d uid) of
        Inl e \<Rightarrow> Some (Threw e)
      | Inr None \<Rightarrow> Some (Threw TypeError)
      | Inr (Some author) \<Rightarrow>
          (case params_freetId req of
             None \<Rightarrow> Some (Threw TypeError)
           | Some fid \<Rightarrow>
               if fid \<in> set (upvotedFreets author)
               then Some (Json 409 (JObject [(''error'', JObject [(''upvoteAlreadyExists'',
                      JString ''User has already upvoted this Freet.'')])]))
               else None))"

definition isValidUpvoteModifier :: Middleware where
  "isValidUpvoteModifier req d =
     (case (case params_upvoteId req of
              None \<Rightarrow> Inr None
            | Some i \<Rightarrow> UpvoteCollection_findOne d i) of
        Inl e \<Rightarrow> Some (Threw e)
      | Inr None \<Rightarrow> Some (Threw TypeError)
      | Inr (Some (upvote, None)) \<Rightarrow> Some (Threw TypeError)
      | Inr (Some (upvote, Some author)) \<Rightarrow>
          if session_userId req \<noteq> Some (user_id author)
          then Some (Json 400 (error_envelope ''Cannot modify other users' upvotes.''))
          else None)"

text \<open>
  \<^verbatim>\<open>constructUpvoteResponse\<close> of \<^verbatim>\<open>server/upvote/util.ts\<close>. Destructuring a null author
  throws. The order of the members of a JSON object carries no meaning.
\<close>

definition constructUpvoteResponse :: "lib \<Rightarrow> PopulatedUpvote \<Rightarrow> error + json" where
  "constructUpvoteResponse L pv =
     (case pv of
        (upvote, None) \<Rightarrow> Inl TypeError
      | (upvote, Some author) \<Rightarrow>
          Inr (JObject [(''_id'', JString (upvote_id upvote)),
                        (''freetId'', JString (freetId upvote)),
                        (''author'', JString (username author)),
                        (''dateCreated'', JString (formatDate L (dateCreated upvote)))]))"

definition UpvoteCollection_findAllByUsername ::
  "lib \<Rightarrow> db \<Rightarrow> string \<Rightarrow> error + PopulatedUpvote list" where
  "UpvoteCollection_findAllByUsername L d uname =
     (case UserCollection_findOneByUsername L d uname of
        None \<Rightarrow> Inl TypeError
      | Some author \<Rightarrow>
          Inr (map (populate_authorId d) (filter (\<lambda>v. authorId v = user_id author) (upvotes d))))"

text \<open>
  Modelled from the spec: \<^verbatim>\<open>isUserLoggedIn\<close> of \<^verbatim>\<open>server/user/middleware.ts\<close>, which is
  not among the sources. Sections 6 and 7: a request that is not authenticated fails with 403,
  and a failure carries \<^verbatim>\<open>{error}\<close>.
\<close>

definition isUserLoggedIn :: Middleware where
  "isUserLoggedIn req d =
     (if truthy (session_userId req) then None
      else Some (Json 403 (error_envelope ''You must be logged in to complete this action.'')))"

text \<open>
  Modelled from the spec: \<^verbatim>\<open>isAuthorExists\<close> of \<^verbatim>\<open>server/user/middleware.ts\<close>, which is
  not among the sources. Section 6 and the documentation of the listing routes: listing by an
  author fails with 400 when the author is empty and with 404 when no user has the name.
\<close>

definition isAuthorExists :: "lib \<Rightarrow> Middleware" where
  "isAuthorExists L req d =
     (if \<not> truthy (query_author req)
      then Some (Json 400 (error_envelope ''Provided author username must be nonempty.''))
      else (case UserCollection_findOneByUsername L d (the (query_author req)) of
              None \<Rightarrow> Some (Json 404 (error_envelope ''A user with this username does not exist.''))
            | Some _ \<Rightarrow> None))"

text \<open>The routes of \<^verbatim>\<open>server/upvote/router.ts\<close>.\<close>

text \<open>
  \<^verbatim>\<open>GET /api/upvotes\<close>. A second route registered on the same path (upvotes of one freet)
  is never reached: the first one answers every request or leaves it to its own handlers.
\<close>

definition GET_upvotes :: "lib \<Rightarrow> Request \<Rightarrow> db \<Rightarrow> Outcome \<times> db" where
  "GET_upvotes L req d =
     (if query_author req \<noteq> None
      then chain [isAuthorExists L]
             (\<lambda>req d. case UpvoteCollection_findAllByUsername L d (the (query_author req)) of
                         Inl e \<Rightarrow> (Threw e, d)
                       | Inr authorUpvotes \<Rightarrow>
                           (case Array_map (constructUpvoteResponse L) authorUpvotes of
                              Inl e \<Rightarrow> (Threw e, d)
                            | Inr response \<Rightarrow> (Json 200 (JArray response), d)))
             req d
      else (case Array_map (constructUpvoteResponse L) (UpvoteCollection_findAll d) of
              Inl e \<Rightarrow> (Threw e, d)
            | Inr response \<Rightarrow> (Json 200 (JArray response), d)))"

section \<open>Freets\<close>

text \<open>
  \<^verbatim>\<open>FreetCollection\<close> (\<^verbatim>\<open>server/freet/collection.ts\<close>), the freet formatters
  (\<^verbatim>\<open>server/freet/util.ts\<close>) and the freet guards (\<^verbatim>\<open>server/freet/middleware.ts\<close>) are not
  among the sources; the freet router, which calls them, is.
\<close>

text \<open>
  Modelled from the spec: \<^verbatim>\<open>FreetCollection.addOne\<close>. Sections 3 and 4.3: a freet is created
  by one insert that stores the author, the content and the flag reasons; the self-flagged
  marker is set when a flag reason came with the content. The author reference is an ObjectId,
  cast from the user id handed in, as for an Upvote.
\<close>

definition FreetCollection_addOne ::
  "ObjectId \<Rightarrow> Date \<Rightarrow> string \<Rightarrow> string \<Rightarrow> string list \<Rightarrow> db \<Rightarrow> (error + Freet) \<times> db" where
  "FreetCollection_addOne newId date aid text flag_responses d =
     (case castObjectId aid of
        None \<Rightarrow> (Inl ValidationError, d)
      | Some author_oid \<Rightarrow>
          (let freet = \<lparr>freet_id = newId, freet_authorId = author_oid, content = text,
                         freet_dateCreated = date, dateModified = date,
                         selfFlagged = (flag_responses \<noteq> []), flags = flag_responses\<rparr>
           in (Inr freet, d\<lparr>freets := freets d @ [freet]\<rparr>)))"

text \<open>
  Modelled from the spec: \<^verbatim>\<open>FreetCollection.findOne\<close>, the freet with the given identifier,
  if any (section 6, \<^verbatim>\<open>GET /freets/:id\<close>); a query on \<^verbatim>\<open>_id\<close>, written after its siblings
  \<^verbatim>\<open>UpvoteCollection.findOne\<close> and \<^verbatim>\<open>UserCollection.findOneByUserId\<close>.
\<close>

definition FreetCollection_findOne :: "db \<Rightarrow> string \<Rightarrow> error + Freet option" where
  "FreetCollection_findOne d fid =
     (case castObjectId fid of
        None \<Rightarrow> Inl CastError
      | Some oid \<Rightarrow> Inr (find (\<lambda>f. freet_id f = oid) (freets d)))"

text \<open>
  Modelled from the spec: \<^verbatim>\<open>FreetCollection.findAll\<close>. Section 4.1: all freets; the
  documentation of the route has them sorted in descending order by date modified.
\<close>

definition FreetCollection_findAll :: "db \<Rightarrow> Freet list" where
  "FreetCollection_findAll d = rev (sort_key (\<lambda>f. getTime (dateModified f)) (freets d))"

text \<open>
  Modelled from the spec: \<^verbatim>\<open>FreetCollection.findAllUnflagged\<close>. Section 4.1: only freets
  with no self-flag.
\<close>

definition FreetCollection_findAllUnflagged :: "db \<Rightarrow> Freet list" where
  "FreetCollection_findAllUnflagged d = filter (\<lambda>f. \<not> selfFlagged f) (FreetCollection_findAll d)"

text \<open>
  Modelled from the spec: \<^verbatim>\<open>FreetCollection.findAllByUsername\<close>. Section 6: the freets of
  one author; written after its sibling \<^verbatim>\<open>UpvoteCollection.findAllByUsername\<close>.
\<close>

definition FreetCollection_findAllByUsername :: "lib \<Rightarrow> db \<Rightarrow> string \<Rightarrow> error + Freet list" where
  "FreetCollection_findAllByUsername L d uname =
     (case UserCollection_findOneByUsername L d uname of
        None \<Rightarrow> Inl TypeError
      | Some author \<Rightarrow>
          Inr (filter (\<lambda>f. freet_authorId f = user_id author) (FreetCollection_findAll d)))"

text \<open>
  Modelled from the spec: \<^verbatim>\<open>FreetCollection.deleteOne\<close>. Section 4.4: remove the Freet
  record; written after its sibling \<^verbatim>\<open>UserCollection.deleteOne\<close>.
\<close>

definition FreetCollection_deleteOne :: "string \<Rightarrow> db \<Rightarrow> (error + bool) \<times> db" where
  "FreetCollection_deleteOne fid d =
     (case castObjectId fid of
        None \<Rightarrow> (Inl CastError, d)
      | Some oid \<Rightarrow>
          (let (freet, fs) = Model_deleteOne (\<lambda>f. freet_id f = oid) (freets d)
           in (Inr (freet \<noteq> None), d\<lparr>freets := fs\<rparr>)))"

text \<open>
  Modelled from the spec: \<^verbatim>\<open>constructFreetResponse\<close>. Section 4.5: identifiers stringified,
  the author reference resolved to the username, dates rendered as strings; section 4.1: the
  content is shown in full whatever the flag. A dangling author throws, as in
  \<^verbatim>\<open>constructUpvoteResponse\<close>.
\<close>

definition constructFreetResponse :: "lib \<Rightarrow> db \<Rightarrow> Freet \<Rightarrow> error + json" where
  "constructFreetResponse L d freet =
     (case find (\<lambda>u. user_id u = freet_authorId freet) (users d) of
        None \<Rightarrow> Inl TypeError
      | Some author \<Rightarrow>
          Inr (JObject [(''_id'', JString (freet_id freet)),
                        (''author'', JString (username author)),
                        (''dateCreated'', JString (formatDate L (freet_dateCreated freet))),
                        (''content'', JString (content freet)),
                        (''dateModified'', JString (formatDate L (dateModified freet)))]))"

text \<open>
  Modelled from the spec: \<^verbatim>\<open>constructRawFreetResponse\<close>. Section 4.5 has one formatter per
  entity, and section 4.1 no redaction: the same shape as \<^verbatim>\<open>constructFreetResponse\<close>.
\<close>

definition constructRawFreetResponse :: "lib \<Rightarrow> db \<Rightarrow> Freet \<Rightarrow> error + json" where
  "constructRawFreetResponse L d freet = constructFreetResponse L d freet"

text \<open>
  Modelled from the spec: \<^verbatim>\<open>isFreetExists\<close>. Sections 6 and 7: an unknown freet fails with
  404; written after its sibling \<^verbatim>\<open>isUpvoteExists\<close>.
\<close>

definition isFreetExists :: Middleware where
  "isFreetExists req d =
     (let validFormat = ObjectId_isValid (params_freetId req)
      in case (if validFormat then FreetCollection_findOne d (the (params_freetId req))
               else Inr None) of
           Inl e \<Rightarrow> Some (Threw e)
         | Inr (Some _) \<Rightarrow> None
         | Inr None \<Rightarrow> Some (Json 404 (JObject [(''error'', JObject [(''freetNotFound'',
             JString (''Freet with freet ID ''
               @ (case params_freetId req of None \<Rightarrow> ''undefined'' | Some i \<Rightarrow> i)
               @ '' does not exist.''))])])))"

text \<open>
  Modelled from the spec: \<^verbatim>\<open>isValidFreetModifier\<close>. Section 6: deleting a freet is for its
  author only, and anyone else fails with 403.
\<close>

definition isValidFreetModifier :: Middleware where
  "isValidFreetModifier req d =
     (case (case params_freetId req of
              None \<Rightarrow> Inr None
            | Some fid \<Rightarrow> FreetCollection_findOne d fid) of
        Inl e \<Rightarrow> Some (Threw e)
      | Inr None \<Rightarrow> Some (Threw TypeError)
      | Inr (Some freet) \<Rightarrow>
          if session_userId req \<noteq> Some (freet_authorId freet)
          then Some (Json 403 (error_envelope ''Cannot modify other users' freets.''))
          else None)"

text \<open>
  Modelled from the spec: \<^verbatim>\<open>isUserAdult\<close> of \<^verbatim>\<open>server/user/middleware.ts\<close>, which is not
  among the sources. Sections 4.1 and 6: an underage requester gets an authorization failure,
  403.
\<close>

definition isUserAdult :: Middleware where
  "isUserAdult req d =
     (case (case session_userId req of
              None \<Rightarrow> Inr None
            | Some uid \<Rightarrow> UserCollection_findOneByUserId d uid) of
        Inl e \<Rightarrow> Some (Threw e)
      | Inr None \<Rightarrow> Some (Threw TypeError)
      | Inr (Some user) \<Rightarrow>
          if underage user
          then Some (Json 403 (error_envelope ''You must be an adult to view this freet.''))
          else None)"

text \<open>
  Modelled from the spec: \<^verbatim>\<open>isValidFreetContent\<close>. Sections 4.3, 6 and 8: content that is
  empty or blank after trimming fails with 400, content of more than 280 characters after
  trimming with 413.
\<close>

definition isValidFreetContent :: Middleware where
  "isValidFreetContent req d =
     (let text = (case map_of (body req) ''content'' of None \<Rightarrow> [] | Some c \<Rightarrow> c)
      in if trim text = []
         then Some (Json 400 (error_envelope ''Freet content must be at least one character long.''))
         else if 280 < length (trim text)
         then Some (Json 413 (error_envelope ''Freet content must be no more than 280 characters.''))
         else None)"

text \<open>The routes of \<^verbatim>\<open>server/freet/router.ts\<close>.\<close>

definition GET_freets :: "lib \<Rightarrow> Request \<Rightarrow> db \<Rightarrow> Outcome \<times> db" where
  "GET_freets L req d =
     (if query_author req \<noteq> None
      then chain [isAuthorExists L]
             (\<lambda>req d. case FreetCollection_findAllByUsername L d (the (query_author req)) of
                         Inl e \<Rightarrow> (Threw e, d)
                       | Inr authorFreets \<Rightarrow>
                           (case Array_map (constructFreetResponse L d) authorFreets of
                              Inl e \<Rightarrow> (Threw e, d)
                            | Inr response \<Rightarrow> (Json 200 (JArray response), d)))
             req d
      else (case (if truthy (session_userId req)
                  then (case UserCollection_findOneByUserId d (the (session_userId req)) of
                          Inl e \<Rightarrow> Inl e
                        | Inr None \<Rightarrow> Inl TypeError
                        | Inr (Some user) \<Rightarrow> Inr (underage user))
                  else Inr False) of
              Inl e \<Rightarrow> (Threw e, d)
            | Inr minor \<Rightarrow>
                if minor
                then (case Array_map (constructFreetResponse L d) (FreetCollection_findAllUnflagged d) of
                        Inl e \<Rightarrow> (Threw e, d)
                      | Inr response \<Rightarrow> (Json 200 (JArray response), d))
                else (case Array_map (constructFreetResponse L d) (FreetCollection_findAll d) of
                        Inl e \<Rightarrow> (Threw e, d)
                      | Inr response \<Rightarrow> (Json 200 (JArray response), d))))"

definition GET_freet :: "lib \<Rightarrow> Request \<Rightarrow> db \<Rightarrow> Outcome \<times> db" where
  "GET_freet L req d =
     (if params_freetId req \<noteq> None
      then chain [isFreetExists, isUserLoggedIn, isUserAdult]
             (\<lambda>req d. case FreetCollection_findOne d (the (params_freetId req)) of
                         Inl e \<Rightarrow> (Threw e, d)
                       | Inr None \<Rightarrow> (Threw TypeError, d)
                       | Inr (Some freet) \<Rightarrow>
                           (let message = (if \<not> selfFlagged freet
                                           then ''Freet is not flagged, but here it is still for viewing!''
                                           else ''Success. Here is the unflagged Freet.'')
                            in case constructRawFreetResponse L d freet of
                                 Inl e \<Rightarrow> (Threw e, d)
                               | Inr r \<Rightarrow>
                                   (Json 200 (JObject [(''freet'', r), (''message'', JString message)]), d)))
             req d
      else (NoReply, d))"

text \<open>
  \<^verbatim>\<open>POST /api/freets\<close>. The identifier of the new freet and the clock reading are arguments.
\<close>

definition POST_freets :: "ObjectId \<Rightarrow> Date \<Rightarrow> lib \<Rightarrow> Request \<Rightarrow> db \<Rightarrow> Outcome \<times> db" where
  "POST_freets newId date L req d =
     chain [isUserLoggedIn, isValidFreetContent]
       (\<lambda>req d.
          (let userId = (case session_userId req of None \<Rightarrow> [] | Some uid \<Rightarrow> uid);
               flag_responses = map snd (filter (\<lambda>(flags, v). flags \<noteq> ''content'') (body req))
           in case FreetCollection_addOne newId date userId
                     (the (map_of (body req) ''content'')) flag_responses d of
                (Inl e, d1) \<Rightarrow> (Threw e, d1)
              | (Inr freet, d1) \<Rightarrow>
                  (case constructRawFreetResponse L d1 freet of
                     Inl e \<Rightarrow> (Threw e, d1)
                   | Inr r \<Rightarrow>
                       (Json 201 (JObject [(''message'', JString ''Your freet was created successfully.''),
                                           (''freet'', r)]), d1))))
       req d"

definition DELETE_freets :: "Request \<Rightarrow> db \<Rightarrow> Outcome \<times> db" where
  "DELETE_freets req d =
     chain [isUserLoggedIn, isFreetExists, isValidFreetModifier]
       (\<lambda>req d.
          (case FreetCollection_deleteOne (the (params_freetId req)) d of
             (Inl e, d1) \<Rightarrow> (Threw e, d1)
           | (Inr _, d1) \<Rightarrow>
               (case (case session_userId req of
                        None \<Rightarrow> (Inl TypeError, d1)
                      | Some uid \<Rightarrow>
                          UpvoteCollection_deleteManyByFreetId (the (params_freetId req)) uid d1) of
                  (Inl e, d2) \<Rightarrow> (Threw e, d2)
                | (Inr _, d2) \<Rightarrow>
                    (Json 200 (JObject [(''message'', JString ''Your freet was deleted successfully.'')]), d2))))
       req d"

text \<open>\<^verbatim>\<open>POST /api/upvotes/:freetId\<close> and \<^verbatim>\<open>DELETE /api/upvotes/:upvoteId\<close>.\<close>

definition POST_upvotes :: "ObjectId \<Rightarrow> Date \<Rightarrow> lib \<Rightarrow> Request \<Rightarrow> db \<Rightarrow> Outcome \<times> db" where
  "POST_upvotes newId date L req d =
     chain [isUserLoggedIn, isFreetExists, isFreetUpvotedbyUser]
       (\<lambda>req d.
          (let userId = (case session_userId req of None \<Rightarrow> [] | Some uid \<Rightarrow> uid)
           in case (case params_freetId req of
                      None \<Rightarrow> (Inl TypeError, d)
                    | Some fid \<Rightarrow> UpvoteCollection_addOne newId date fid userId d) of
                (Inl e, d1) \<Rightarrow> (Threw e, d1)
              | (Inr upvote, d1) \<Rightarrow>
                  (case constructUpvoteResponse L upvote of
                     Inl e \<Rightarrow> (Threw e, d1)
                   | Inr r \<Rightarrow>
                       (Json 201 (JObject [(''message'', JString ''You have upvoted this freet successfully.''),
                                           (''upvote'', r)]), d1))))
       req d"

definition DELETE_upvotes :: "Request \<Rightarrow> db \<Rightarrow> Outcome \<times> db" where
  "DELETE_upvotes req d =
     chain [isUserLoggedIn, isUpvoteExists, isValidUpvoteModifier]
       (\<lambda>req d.
          (case (case params_upvoteId req of
                   None \<Rightarrow> Inr None
                 | Some i \<Rightarrow> UpvoteCollection_findOne d i) of
             Inl e \<Rightarrow> (Threw e, d)
           | Inr None \<Rightarrow> (Threw TypeError, d)
           | Inr (Some (upvote, _)) \<Rightarrow>
               (case (case session_userId req of
                        None \<Rightarrow> (Inl TypeError, d)
                      | Some uid \<Rightarrow>
                          UpvoteCollection_deleteOne (the (params_upvoteId req)) uid (freetId upvote) d) of
                  (Inl e, d1) \<Rightarrow> (Threw e, d1)
                | (Inr _, d1) \<Rightarrow>
                    (Json 200 (JObject [(''message'', JString ''Your upvote was deleted successfully.'')]), d1))))
       req d"

text \<open>The shapes of a response body.\<close>

definition isMessageEntity :: "json \<Rightarrow> bool" where
  "isMessageEntity b =
     (case b of
        JObject kvs \<Rightarrow> length kvs = 2 \<and> ''message'' \<in> set (map fst kvs)
      | _ \<Rightarrow> False)"

definition isMessageOnly :: "json \<Rightarrow> bool" where
  "isMessageOnly b = (case b of JObject kvs \<Rightarrow> map fst kvs = [''message''] | _ \<Rightarrow> False)"

definition isErrorEnvelope :: "json \<Rightarrow> bool" where
  "isErrorEnvelope b = (case b of JObject kvs \<Rightarrow> map fst kvs = [''error''] | _ \<Rightarrow> False)"

definition isBareArray :: "json \<Rightarrow> bool" where
  "isBareArray b = (case b of JArray _ \<Rightarrow> True | _ \<Rightarrow> False)"

section \<open>Example states\<close>

text \<open>
  Concrete identifiers, documents, stores, requests and expected responses on which the
  theorems below are evaluated, and stand-ins for the two library functions.
\<close>

definition date0 :: Date where
  "date0 = \<lparr>getFullYear = 2022, getMonth = 10, getDate = 2, getTime = 1667347200000\<rparr>"

definition alice_id :: ObjectId where "alice_id = ''63620000000000000000000a''"
definition bob_id :: ObjectId where "bob_id = ''63620000000000000000000b''"
definition carol_id :: ObjectId where "carol_id = ''63620000000000000000000c''"
definition freet1_id :: ObjectId where "freet1_id = ''636200000000000000000f01''"
definition freet2_id :: ObjectId where "freet2_id = ''636200000000000000000f02''"
definition freet3_id :: ObjectId where "freet3_id = ''636200000000000000000f03''"
definition upvote1_id :: ObjectId where "upvote1_id = ''636200000000000000000e01''"
definition upvote2_id :: ObjectId where "upvote2_id = ''636200000000000000000e02''"
definition upvote3_id :: ObjectId where "upvote3_id = ''636200000000000000000e03''"

text \<open>Another spelling of the first freet's id.\<close>

definition freet1_upper :: string where "freet1_upper = ''636200000000000000000F01''"

definition lib0 :: lib where
  "lib0 = \<lparr>formatDate = (\<lambda>d. ''November 2nd 2022, 12:00:00 am''), usernameRegExp = (\<lambda>p s. p = s)\<rparr>"

definition mkUser :: "ObjectId \<Rightarrow> string \<Rightarrow> bool \<Rightarrow> string list \<Rightarrow> User" where
  "mkUser i n m fs = \<lparr>user_id = i, username = n, password = ''pw'', dateJoined = date0,
     birthday = date0, underage = m, upvotedFreets = fs\<rparr>"

definition mkUpvote :: "ObjectId \<Rightarrow> ObjectId \<Rightarrow> ObjectId \<Rightarrow> Upvote" where
  "mkUpvote i f a = \<lparr>upvote_id = i, freetId = f, authorId = a, dateCreated = date0\<rparr>"

definition mkFreet :: "ObjectId \<Rightarrow> ObjectId \<Rightarrow> string \<Rightarrow> bool \<Rightarrow> Freet" where
  "mkFreet i a c flagged = \<lparr>freet_id = i, freet_authorId = a, content = c,
     freet_dateCreated = date0, dateModified = date0, selfFlagged = flagged,
     flags = (if flagged then [''sensitive''] else [])\<rparr>"

definition mkRequest :: "string option \<Rightarrow> string option \<Rightarrow> Request" where
  "mkRequest session fid = \<lparr>session_userId = session, params_freetId = fid,
     params_upvoteId = None, query_author = None, body = []\<rparr>"

definition post_request :: Request where
  "post_request = \<lparr>session_userId = Some alice_id, params_freetId = None,
     params_upvoteId = None, query_author = None,
     body = [(''content'', ''  hello world  ''), (''flag1'', ''sensitive'')]\<rparr>"

text \<open>Alice has upvoted one freet; nobody else has upvoted anything.\<close>

definition db_one :: db where
  "db_one = \<lparr>users = [mkUser alice_id ''alice'' False [freet1_id], mkUser bob_id ''bob'' True []],
     freets = [],
     upvotes = [mkUpvote upvote1_id freet1_id alice_id]\<rparr>"

text \<open>Alice has written two freets and upvoted none.\<close>

definition db_start :: db where
  "db_start = \<lparr>users = [mkUser alice_id ''alice'' False []],
     freets = [mkFreet freet1_id alice_id ''hello'' False, mkFreet freet2_id alice_id ''bye'' False],
     upvotes = []\<rparr>"

text \<open>Two live upvotes of alice for one freet, which her list holds once.\<close>

definition db_twice :: db where
  "db_twice = \<lparr>users = [mkUser alice_id ''alice'' False [freet1_id]],
     freets = [mkFreet freet1_id alice_id ''hello'' False],
     upvotes = [mkUpvote upvote1_id freet1_id alice_id, mkUpvote upvote2_id freet1_id alice_id]\<rparr>"

text \<open>Alice (an adult) and bob (underage) have each written one freet and upvoted the other's.\<close>

definition db_freets :: db where
  "db_freets = \<lparr>users = [mkUser alice_id ''alice'' False [freet2_id], mkUser bob_id ''bob'' True [freet1_id]],
     freets = [mkFreet freet1_id alice_id ''hello'' False, mkFreet freet2_id bob_id ''secret'' True],
     upvotes = [mkUpvote upvote1_id freet1_id bob_id, mkUpvote upvote2_id freet2_id alice_id]\<rparr>"

definition upvoteJson :: "ObjectId \<Rightarrow> ObjectId \<Rightarrow> string \<Rightarrow> json" where
  "upvoteJson i f a = JObject [(''_id'', JString i), (''freetId'', JString f),
     (''author'', JString a), (''dateCreated'', JString ''November 2nd 2022, 12:00:00 am'')]"

definition freetJson :: "ObjectId \<Rightarrow> string \<Rightarrow> string \<Rightarrow> json" where
  "freetJson i a c = JObject [(''_id'', JString i), (''author'', JString a),
     (''dateCreated'', JString ''November 2nd 2022, 12:00:00 am''), (''content'', JString c),
     (''dateModified'', JString ''November 2nd 2022, 12:00:00 am'')]"

section \<open>Properties of the array helpers\<close>

lemma indexOf_ge: "- 1 \<le> indexOf xs x"
  by (induction xs) (auto simp: Let_def)

lemma indexOf_absent: "x \<notin> set xs \<Longrightarrow> indexOf xs x = - 1"
  by (induction xs) (auto simp: Let_def)


lemma splice_absent: "Array_splice (- 1) 1 xs = butlast xs"
  by (cases xs rule: rev_cases) (auto simp: Array_splice_def Let_def)


section \<open>The store after a write\<close>

lemma find_user_id: "find (\<lambda>u. user_id u = a) us = Some au \<Longrightarrow> user_id au = a \<and> au \<in> set us"
  by (induction us) (auto split: if_splits)

lemma findOneByUserId_props:
  "UserCollection_findOneByUserId d a = Inr (Some au) \<Longrightarrow>
     castObjectId a = Some (user_id au) \<and> au \<in> set (users d)
     \<and> find (\<lambda>u. user_id u = user_id au) (users d) = Some au"
  unfolding UserCollection_findOneByUserId_def
  by (auto split: option.splits dest: find_user_id)

lemma find_after_save:
  "find (\<lambda>u. user_id u = a) us = Some au \<Longrightarrow> user_id au' = a \<Longrightarrow>
   find (\<lambda>u. user_id u = a) (map (\<lambda>v. if user_id v = a then au' else v) us) = Some au'"
  by (induction us) (auto split: if_splits)

lemma findOneByUserId_save_user:
  assumes "UserCollection_findOneByUserId d a = Inr (Some au)" "user_id au' = user_id au"
  shows "UserCollection_findOneByUserId (save_user au' d) a = Inr (Some au')"
proof -
  from findOneByUserId_props [OF assms(1)]
  have c: "castObjectId a = Some (user_id au)"
    and f: "find (\<lambda>u. user_id u = user_id au) (users d) = Some au" by simp_all
  from find_after_save [OF f assms(2)] c assms(2) show ?thesis
    by (simp add: UserCollection_findOneByUserId_def save_user_def)
qed

lemma findOneByUserId_other_fields [simp]:
  "UserCollection_findOneByUserId (d\<lparr>upvotes := ups\<rparr>) a = UserCollection_findOneByUserId d a"
  "UserCollection_findOneByUserId (d\<lparr>freets := fs\<rparr>) a = UserCollection_findOneByUserId d a"
  by (simp_all add: UserCollection_findOneByUserId_def split: option.splits)



lemma deleteFirst_none:
  "find P xs = None \<Longrightarrow> deleteFirst P xs = xs"
  by (induction xs) (auto split: if_splits)



section \<open>Evaluating the examples\<close>

lemmas ex_defs = date0_def alice_id_def bob_id_def carol_id_def freet1_id_def freet2_id_def
  upvote1_id_def upvote2_id_def mkUser_def mkUpvote_def db_twice_def db_one_def

lemmas all_defs = ex_defs lib0_def mkFreet_def mkRequest_def db_freets_def upvote3_id_def
  upvoteJson_def freetJson_def db_start_def freet3_id_def post_request_def freet1_upper_def

lemmas cast_defs = castObjectId_def isHexDigit_def lowerHex_def byteHex_def hexDigitOf_def

lemma cast_examples:
  "castObjectId alice_id = Some alice_id" "castObjectId bob_id = Some bob_id"
  "castObjectId carol_id = Some carol_id"
  "castObjectId freet1_id = Some freet1_id" "castObjectId freet2_id = Some freet2_id"
  "castObjectId freet3_id = Some freet3_id"
  "castObjectId upvote1_id = Some upvote1_id" "castObjectId upvote2_id = Some upvote2_id"
  "castObjectId upvote3_id = Some upvote3_id"
  "castObjectId freet1_upper = Some freet1_id"
  "castObjectId ''not-an-id'' = None"
  "castObjectId ''abcdefghijkl'' = Some ''6162636465666768696a6b6c''"
  by (simp_all add: cast_defs all_defs)

lemmas route_eval = isUserLoggedIn_def isFreetExists_def isFreetUpvotedbyUser_def
  isValidFreetModifier_def isUserAdult_def ObjectId_isValid_def truthy_def
  FreetCollection_findOne_def FreetCollection_deleteOne_def UpvoteCollection_addOne_def
  UpvoteCollection_deleteManyByFreetId_def UserCollection_findOneByUserId_def save_user_def
  populate_authorId_def constructUpvoteResponse_def constructFreetResponse_def
  constructRawFreetResponse_def Model_deleteOne_def Model_deleteMany_def Array_splice_def
  Let_def cast_defs all_defs

section \<open>The underage flag\<close>




section \<open>Removing an upvote\<close>

text \<open>
  C9. When the freet id handed to \<^verbatim>\<open>UpvoteCollection.deleteOne\<close> or to
  \<^verbatim>\<open>UpvoteCollection.deleteManyByFreetId\<close> is not in the list of the given author,
  \<^verbatim>\<open>indexOf\<close> is \<open>-1\<close> and \<^verbatim>\<open>splice(-1, 1)\<close> drops the last element: the author is stored
  with the list less its last element, one shorter than before when there was one. The list is
  written before the delete query, so this holds also when that query rejects an id that does
  not cast.
\<close>

theorem absent_freet_removes_last:
  assumes "UserCollection_findOneByUserId d aid = Inr (Some author)"
    and "fid \<notin> set (upvotedFreets author)"
  shows "(\<exists>d'. UpvoteCollection_deleteOne upvoteId aid fid d =
                 (if castObjectId upvoteId = None then Inl CastError else Inr True, d') \<and>
            UserCollection_findOneByUserId d' aid =
              Inr (Some (author\<lparr>upvotedFreets := butlast (upvotedFreets author)\<rparr>)))
       \<and> (\<exists>d'. UpvoteCollection_deleteManyByFreetId fid aid d =
                 (if castObjectId fid = None then Inl CastError else Inr (), d') \<and>
            UserCollection_findOneByUserId d' aid =
              Inr (Some (author\<lparr>upvotedFreets := butlast (upvotedFreets author)\<rparr>)))
       \<and> length (butlast (upvotedFreets author)) = length (upvotedFreets author) - 1"
proof -
  let ?a' = "author\<lparr>upvotedFreets := butlast (upvotedFreets author)\<rparr>"
  have sp: "Array_splice (indexOf (upvotedFreets author) fid) 1 (upvotedFreets author)
              = butlast (upvotedFreets author)"
    by (simp only: indexOf_absent [OF assms(2)] splice_absent)
  have fd: "UserCollection_findOneByUserId (save_user ?a' d) aid = Inr (Some ?a')"
    using findOneByUserId_save_user [OF assms(1), of ?a'] by simp
  show ?thesis
    using assms(1) sp fd
    by (auto simp: UpvoteCollection_deleteOne_def UpvoteCollection_deleteManyByFreetId_def
        Model_deleteOne_def Let_def split: option.splits)
qed

theorem absent_freet_removes_last_witness:
  "UserCollection_findOneByUserId db_one alice_id = Inr (Some (mkUser alice_id ''alice'' False [freet1_id]))
   \<and> freet2_id \<notin> set (upvotedFreets (mkUser alice_id ''alice'' False [freet1_id]))
   \<and> (\<exists>d'. UpvoteCollection_deleteOne upvote2_id alice_id freet2_id db_one = (Inr True, d') \<and>
         UserCollection_findOneByUserId d' alice_id = Inr (Some (mkUser alice_id ''alice'' False [])))
   \<and> (\<exists>d'. UpvoteCollection_deleteManyByFreetId freet2_id alice_id db_one = (Inr (), d') \<and>
         UserCollection_findOneByUserId d' alice_id = Inr (Some (mkUser alice_id ''alice'' False [])))"
proof -
  have a: "UserCollection_findOneByUserId db_one alice_id = Inr (Some (mkUser alice_id ''alice'' False [freet1_id]))"
    by (simp add: UserCollection_findOneByUserId_def cast_defs ex_defs)
  have b: "freet2_id \<notin> set (upvotedFreets (mkUser alice_id ''alice'' False [freet1_id]))"
    by (simp add: ex_defs)
  from absent_freet_removes_last [OF a b, of upvote2_id] a b show ?thesis
    by (simp add: mkUser_def cast_examples)
qed

text \<open>
  C10. As stated the claim fails: \<^verbatim>\<open>UpvoteCollection.deleteOne\<close> called with an author id
  that matches no stored user throws on the null author, and both operations reject an id that
  does not cast to an ObjectId; none of these calls returns true.
\<close>

theorem deleteOne_unknown_author_throws:
  "fst (UpvoteCollection_deleteOne upvote1_id carol_id freet1_id db_twice) = Inl TypeError
   \<and> fst (UpvoteCollection_deleteOne ''not-an-id'' alice_id freet1_id db_twice) = Inl CastError
   \<and> fst (UserCollection_deleteOne ''not-an-id'' db_twice) = Inl CastError"
  by (simp add: UpvoteCollection_deleteOne_def UserCollection_deleteOne_def
      UserCollection_findOneByUserId_def cast_defs Let_def ex_defs)

text \<open>
  C10. (amended) Neither operation ever returns false. \<^verbatim>\<open>UserCollection.deleteOne\<close>
  returns true for every id that casts to an ObjectId, stored or not, and rejects with a
  \<^verbatim>\<open>CastError\<close> any other. \<^verbatim>\<open>UpvoteCollection.deleteOne\<close> returns true when the author id
  names a stored user and the upvote id casts, whether or not an upvote has it; it rejects with
  a \<^verbatim>\<open>CastError\<close> when the author id does not cast, throws a \<^verbatim>\<open>TypeError\<close> when the
  author id names no stored user, and rejects with a \<^verbatim>\<open>CastError\<close> when the upvote id does
  not cast.
\<close>

theorem deleteOne_returns_true:
  "fst (UserCollection_deleteOne userId d) =
     (if castObjectId userId = None then Inl CastError else Inr True)
   \<and> fst (UpvoteCollection_deleteOne upvoteId aid fid d) =
     (case UserCollection_findOneByUserId d aid of
        Inl e \<Rightarrow> Inl CastError
      | Inr None \<Rightarrow> Inl TypeError
      | Inr (Some author) \<Rightarrow>
          if castObjectId upvoteId = None then Inl CastError else Inr True)
   \<and> fst (UserCollection_deleteOne userId d) \<noteq> Inr False
   \<and> fst (UpvoteCollection_deleteOne upvoteId aid fid d) \<noteq> Inr False"
  by (auto simp: UserCollection_deleteOne_def UpvoteCollection_deleteOne_def
      UserCollection_findOneByUserId_def Model_deleteOne_def Let_def
      split: option.splits sum.splits)

section \<open>The upvoted list and the Upvote records\<close>

lemma upvotedBy_users [simp]: "upvotedBy (d\<lparr>users := us\<rparr>) a = upvotedBy d a"
  by (simp add: upvotedBy_def)




lemma addOne_result:
  assumes "UserCollection_findOneByUserId d aid = Inr (Some author)"
    and "castObjectId fid = Some freet_oid"
  shows "UpvoteCollection_addOne newId date fid aid d =
     (let up = \<lparr>upvote_id = newId, freetId = freet_oid, authorId = user_id author,
                 dateCreated = date\<rparr>;
          d' = (save_user (author\<lparr>upvotedFreets := upvotedFreets author @ [fid]\<rparr>) d)
                 \<lparr>upvotes := upvotes d @ [up]\<rparr>
      in (Inr (populate_authorId d' up), d'))"
  using assms findOneByUserId_props [OF assms(1)]
  by (simp add: UpvoteCollection_addOne_def Let_def save_user_def)

lemma addOne_malformed:
  assumes "UserCollection_findOneByUserId d aid = Inr (Some author)"
    and "castObjectId fid = None"
  shows "UpvoteCollection_addOne newId date fid aid d =
     (Inl ValidationError, save_user (author\<lparr>upvotedFreets := upvotedFreets author @ [fid]\<rparr>) d)"
  using assms by (simp add: UpvoteCollection_addOne_def Let_def)






text \<open>
  \<^verbatim>\<open>UpvoteCollection.addOne\<close> pushes the freet id as it was spelt and stores the id it casts
  to: with another spelling of a freet's id the list and the record disagree, and with a string
  that does not cast the list is written and no record is.
\<close>

lemma addOne_other_spelling:
  "inv_member db_start"
  "UpvoteCollection_addOne upvote1_id date0 freet1_upper alice_id db_start =
     (Inr (mkUpvote upvote1_id freet1_id alice_id, Some (mkUser alice_id ''alice'' False [freet1_upper])),
      db_start\<lparr>users := [mkUser alice_id ''alice'' False [freet1_upper]],
                upvotes := [mkUpvote upvote1_id freet1_id alice_id]\<rparr>)"
  "\<not> inv_member (db_start\<lparr>users := [mkUser alice_id ''alice'' False [freet1_upper]],
                upvotes := [mkUpvote upvote1_id freet1_id alice_id]\<rparr>)"
  "UpvoteCollection_addOne upvote1_id date0 ''not-an-id'' alice_id db_start =
     (Inl ValidationError, db_start\<lparr>users := [mkUser alice_id ''alice'' False [''not-an-id'']]\<rparr>)"
  "\<not> inv_member (db_start\<lparr>users := [mkUser alice_id ''alice'' False [''not-an-id'']]\<rparr>)"
  by (simp_all add: UpvoteCollection_addOne_def UserCollection_findOneByUserId_def cast_defs
      Let_def all_defs inv_member_def upvotedBy_def save_user_def populate_authorId_def)



section \<open>Deleting a freet\<close>

text \<open>
  C1. The claim does not hold of the code. \<^verbatim>\<open>DELETE /api/freets/:freetId\<close> hands
  \<^verbatim>\<open>UpvoteCollection.deleteManyByFreetId\<close> the id of the requester, and only that user's list
  is spliced. Here alice deletes her freet, which bob has upvoted: the request succeeds, the
  Upvote record is gone, bob's list still holds the id of the deleted freet, and alice, who
  had not upvoted it, loses the last entry of her list although her upvote of the other freet
  is still stored.
\<close>

theorem delete_freet_leaves_upvoter_list:
  "DELETE_freets (mkRequest (Some alice_id) (Some freet1_id)) db_freets =
     (Json 200 (JObject [(''message'', JString ''Your freet was deleted successfully.'')]),
      \<lparr>users = [mkUser alice_id ''alice'' False [], mkUser bob_id ''bob'' True [freet1_id]],
       freets = [mkFreet freet2_id bob_id ''secret'' True],
       upvotes = [mkUpvote upvote2_id freet2_id alice_id]\<rparr>)"
  by (simp add: DELETE_freets_def route_eval)

text \<open>
  The part that holds: when the request succeeds, the freet record is removed and no stored
  Upvote refers to the freet.
\<close>

lemma delete_freet_removes_upvotes:
  assumes "DELETE_freets req d = (Json 200 b, d')"
  shows "\<exists>fid oid. params_freetId req = Some fid \<and> castObjectId fid = Some oid
           \<and> freets d' = deleteFirst (\<lambda>f. freet_id f = oid) (freets d)
           \<and> upvotes d' = filter (\<lambda>v. freetId v \<noteq> oid) (upvotes d)"
proof -
  from assms have g1: "isUserLoggedIn req d = None"
    by (auto simp: DELETE_freets_def isUserLoggedIn_def split: option.splits if_splits)
  with assms have g2: "isFreetExists req d = None"
    by (auto simp: DELETE_freets_def isFreetExists_def Let_def
        split: option.splits if_splits sum.splits)
  with assms g1 have g3: "isValidFreetModifier req d = None"
    by (auto simp: DELETE_freets_def isValidFreetModifier_def
        split: option.splits if_splits sum.splits)
  from g2 obtain fid where fid: "params_freetId req = Some fid"
    by (auto simp: isFreetExists_def ObjectId_isValid_def Let_def
        split: option.splits if_splits sum.splits)
  from assms g1 g2 g3 fid show ?thesis
    by (auto simp: DELETE_freets_def FreetCollection_deleteOne_def
        UpvoteCollection_deleteManyByFreetId_def Model_deleteOne_def Model_deleteMany_def
        save_user_def Let_def split: option.splits sum.splits prod.splits)
qed

section \<open>Fetching and listing freets\<close>

text \<open>
  C2. As stated the claim fails: the guards of \<^verbatim>\<open>GET /api/freets/:freetId\<close> run before
  the handler reads the flag, so a requester who is not logged in is refused a freet that is
  not self-flagged.
\<close>

theorem unflagged_freet_needs_login:
  "FreetCollection_findOne db_freets freet1_id = Inr (Some (mkFreet freet1_id alice_id ''hello'' False))
   \<and> \<not> selfFlagged (mkFreet freet1_id alice_id ''hello'' False)
   \<and> GET_freet lib0 (mkRequest None (Some freet1_id)) db_freets =
       (Json 403 (error_envelope ''You must be logged in to complete this action.''), db_freets)"
  by (simp add: GET_freet_def route_eval)

text \<open>
  C2. (amended) For every stored freet, self-flagged or not,
  \<^verbatim>\<open>GET /api/freets/:freetId\<close> answers a requester who is not logged in with 403 and one who is
  underage with 403; a logged-in adult gets the freet in full, and the flag only chooses the
  message.
\<close>

theorem single_freet_gate:
  assumes "params_freetId req = Some fid" "ObjectId_isValid (Some fid)"
    and "FreetCollection_findOne d fid = Inr (Some freet)"
  shows "(\<not> truthy (session_userId req) \<longrightarrow>
            GET_freet L req d =
              (Json 403 (error_envelope ''You must be logged in to complete this action.''), d))
       \<and> (\<forall>uid user. session_userId req = Some uid \<and> uid \<noteq> [] \<and>
             UserCollection_findOneByUserId d uid = Inr (Some user) \<longrightarrow>
             GET_freet L req d =
               (if underage user
                then (Json 403 (error_envelope ''You must be an adult to view this freet.''), d)
                else (case constructRawFreetResponse L d freet of
                        Inl e \<Rightarrow> (Threw e, d)
                      | Inr r \<Rightarrow>
                          (Json 200 (JObject [(''freet'', r), (''message'', JString
                             (if selfFlagged freet then ''Success. Here is the unflagged Freet.''
                              else ''Freet is not flagged, but here it is still for viewing!''))]), d))))"
  using assms
  by (auto simp: GET_freet_def isUserLoggedIn_def isFreetExists_def isUserAdult_def truthy_def
      Let_def split: sum.splits)

theorem single_freet_gate_witness:
  "params_freetId (mkRequest (Some bob_id) (Some freet2_id)) = Some freet2_id
   \<and> ObjectId_isValid (Some freet2_id)
   \<and> FreetCollection_findOne db_freets freet2_id = Inr (Some (mkFreet freet2_id bob_id ''secret'' True))
   \<and> GET_freet lib0 (mkRequest None (Some freet2_id)) db_freets =
       (Json 403 (error_envelope ''You must be logged in to complete this action.''), db_freets)
   \<and> GET_freet lib0 (mkRequest (Some bob_id) (Some freet2_id)) db_freets =
       (Json 403 (error_envelope ''You must be an adult to view this freet.''), db_freets)
   \<and> GET_freet lib0 (mkRequest (Some alice_id) (Some freet2_id)) db_freets =
       (Json 200 (JObject [(''freet'', freetJson freet2_id ''bob'' ''secret''),
          (''message'', JString ''Success. Here is the unflagged Freet.'')]), db_freets)
   \<and> GET_freet lib0 (mkRequest (Some alice_id) (Some freet1_id)) db_freets =
       (Json 200 (JObject [(''freet'', freetJson freet1_id ''alice'' ''hello''),
          (''message'', JString ''Freet is not flagged, but here it is still for viewing!'')]), db_freets)"
proof -
  have v: "ObjectId_isValid (Some freet2_id)" "ObjectId_isValid (Some freet1_id)"
    by (simp_all add: ObjectId_isValid_def isHexDigit_def all_defs)
  have f: "FreetCollection_findOne db_freets freet2_id = Inr (Some (mkFreet freet2_id bob_id ''secret'' True))"
    "FreetCollection_findOne db_freets freet1_id = Inr (Some (mkFreet freet1_id alice_id ''hello'' False))"
    by (simp_all add: FreetCollection_findOne_def cast_defs all_defs)
  have u: "UserCollection_findOneByUserId db_freets bob_id = Inr (Some (mkUser bob_id ''bob'' True [freet1_id]))"
    "UserCollection_findOneByUserId db_freets alice_id = Inr (Some (mkUser alice_id ''alice'' False [freet2_id]))"
    by (simp_all add: UserCollection_findOneByUserId_def cast_defs all_defs)
  have r: "constructRawFreetResponse lib0 db_freets (mkFreet freet2_id bob_id ''secret'' True)
             = Inr (freetJson freet2_id ''bob'' ''secret'')"
    "constructRawFreetResponse lib0 db_freets (mkFreet freet1_id alice_id ''hello'' False)
             = Inr (freetJson freet1_id ''alice'' ''hello'')"
    by (simp_all add: constructRawFreetResponse_def constructFreetResponse_def all_defs)
  have ne: "bob_id \<noteq> []" "alice_id \<noteq> []" by (simp_all add: all_defs)
  have p: "\<And>s i. params_freetId (mkRequest s i) = i" "\<And>s i. session_userId (mkRequest s i) = s"
    by (simp_all add: mkRequest_def)
  have flg: "underage (mkUser bob_id ''bob'' True [freet1_id])"
    "\<not> underage (mkUser alice_id ''alice'' False [freet2_id])"
    "selfFlagged (mkFreet freet2_id bob_id ''secret'' True)"
    "\<not> selfFlagged (mkFreet freet1_id alice_id ''hello'' False)"
    by (simp_all add: mkUser_def mkFreet_def)
  note t = single_freet_gate [of _ freet2_id db_freets _ lib0, OF _ v(1) f(1)] single_freet_gate [of _ freet1_id db_freets _ lib0, OF _ v(2) f(2)]
  from t(1) [of "mkRequest None (Some freet2_id)"] t(1) [of "mkRequest (Some bob_id) (Some freet2_id)"]
    t(1) [of "mkRequest (Some alice_id) (Some freet2_id)"] t(2) [of "mkRequest (Some alice_id) (Some freet1_id)"]
    v f u r ne flg
  show ?thesis by (simp add: p truthy_def)
qed

lemma Array_map_Inr: "Array_map f xs = Inr ys \<longleftrightarrow> map f xs = map Inr ys"
proof (induction xs arbitrary: ys)
  case Nil
  then show ?case by auto
next
  case (Cons x xs)
  show ?case
  proof (cases "f x")
    case (Inl e)
    then show ?thesis by (cases ys) auto
  next
    case (Inr y)
    show ?thesis
    proof (cases "Array_map f xs")
      case (Inl e)
      with Cons.IH have "\<And>zs. map f xs \<noteq> map Inr zs" by auto
      with Inl Inr show ?thesis by (cases ys) auto
    next
      case r: (Inr zs)
      with Cons.IH [of zs] have "map f xs = map Inr zs" by simp
      with r Inr show ?thesis by (cases ys) (auto simp: inj_map_eq_map)
    qed
  qed
qed

lemma findAll_mset: "mset (FreetCollection_findAll d) = mset (freets d)"
  by (simp add: FreetCollection_findAll_def)

text \<open>
  C3. Listing without an author filter: a logged-in requester whose stored underage flag
  is set gets the formatted freets with no self-flag; a requester who is not logged in, or whose
  flag is not set, gets all freets. The listing holds the stored freets, each once, and the
  response has one entry per listed freet, in order.
\<close>

theorem listing_visibility:
  assumes "query_author req = None"
  shows "(\<forall>uid user. session_userId req = Some uid \<and> uid \<noteq> [] \<and>
            UserCollection_findOneByUserId d uid = Inr (Some user) \<and> underage user \<longrightarrow>
            GET_freets L req d =
              (case Array_map (constructFreetResponse L d)
                      (filter (\<lambda>f. \<not> selfFlagged f) (FreetCollection_findAll d)) of
                 Inl e \<Rightarrow> (Threw e, d)
               | Inr response \<Rightarrow> (Json 200 (JArray response), d)))
       \<and> (\<not> truthy (session_userId req) \<or>
            (\<exists>uid user. session_userId req = Some uid \<and>
               UserCollection_findOneByUserId d uid = Inr (Some user) \<and> \<not> underage user) \<longrightarrow>
            GET_freets L req d =
              (case Array_map (constructFreetResponse L d) (FreetCollection_findAll d) of
                 Inl e \<Rightarrow> (Threw e, d)
               | Inr response \<Rightarrow> (Json 200 (JArray response), d)))
       \<and> mset (FreetCollection_findAll d) = mset (freets d)
       \<and> (\<forall>fs response. Array_map (constructFreetResponse L d) fs = Inr response \<longrightarrow>
            map (constructFreetResponse L d) fs = map Inr response)"
  using assms
  by (auto simp: GET_freets_def FreetCollection_findAllUnflagged_def truthy_def findAll_mset
      Array_map_Inr split: sum.splits option.splits)

theorem listing_visibility_witness:
  "query_author (mkRequest (Some bob_id) None) = None
   \<and> UserCollection_findOneByUserId db_freets bob_id = Inr (Some (mkUser bob_id ''bob'' True [freet1_id]))
   \<and> underage (mkUser bob_id ''bob'' True [freet1_id])
   \<and> GET_freets lib0 (mkRequest (Some bob_id) None) db_freets =
       (Json 200 (JArray [freetJson freet1_id ''alice'' ''hello'']), db_freets)
   \<and> GET_freets lib0 (mkRequest None None) db_freets =
       (Json 200 (JArray [freetJson freet2_id ''bob'' ''secret'',
                          freetJson freet1_id ''alice'' ''hello'']), db_freets)"
proof -
  have q: "\<And>s i. query_author (mkRequest s i) = None" "\<And>s i. session_userId (mkRequest s i) = s"
    by (simp_all add: mkRequest_def)
  have u: "UserCollection_findOneByUserId db_freets bob_id = Inr (Some (mkUser bob_id ''bob'' True [freet1_id]))"
    by (simp add: UserCollection_findOneByUserId_def cast_defs all_defs)
  have m: "underage (mkUser bob_id ''bob'' True [freet1_id])" by (simp add: mkUser_def)
  have ne: "bob_id \<noteq> []" by (simp add: all_defs)
  have all: "FreetCollection_findAll db_freets =
      [mkFreet freet2_id bob_id ''secret'' True, mkFreet freet1_id alice_id ''hello'' False]"
    by (simp add: FreetCollection_findAll_def all_defs)
  have fl: "selfFlagged (mkFreet freet2_id bob_id ''secret'' True)"
    "\<not> selfFlagged (mkFreet freet1_id alice_id ''hello'' False)"
    by (simp_all add: mkFreet_def)
  have r: "constructFreetResponse lib0 db_freets (mkFreet freet2_id bob_id ''secret'' True)
             = Inr (freetJson freet2_id ''bob'' ''secret'')"
    "constructFreetResponse lib0 db_freets (mkFreet freet1_id alice_id ''hello'' False)
             = Inr (freetJson freet1_id ''alice'' ''hello'')"
    by (simp_all add: constructFreetResponse_def all_defs)
  from listing_visibility [OF q(1), of "Some bob_id" None db_freets lib0] listing_visibility [OF q(1), of None None db_freets lib0]
    u m ne
  show ?thesis by (simp add: q all fl r truthy_def)
qed

section \<open>Creating a freet\<close>

text \<open>
  C6. For a request of a logged-in stored user that carries a content,
  \<^verbatim>\<open>POST /api/freets\<close> answers 400 when the content is empty after trimming, 413 when it is
  longer than 280 after trimming, and otherwise 201, storing one freet with the content as sent
  and every other body field as a flag reason.
\<close>

theorem freet_content_limits:
  assumes "session_userId req = Some uid" "uid \<noteq> []"
    and "UserCollection_findOneByUserId d uid = Inr (Some user)"
    and "map_of (body req) ''content'' = Some c"
  shows "(trim c = [] \<longrightarrow>
            POST_freets newId date L req d =
              (Json 400 (error_envelope ''Freet content must be at least one character long.''), d))
       \<and> (280 < length (trim c) \<longrightarrow>
            POST_freets newId date L req d =
              (Json 413 (error_envelope ''Freet content must be no more than 280 characters.''), d))
       \<and> (1 \<le> length (trim c) \<and> length (trim c) \<le> 280 \<longrightarrow>
            (\<exists>r.
               POST_freets newId date L req d =
                 (Json 201 (JObject [(''message'', JString ''Your freet was created successfully.''),
                                     (''freet'', r)]),
                  d\<lparr>freets := freets d @
                      [\<lparr>freet_id = newId, freet_authorId = user_id user, content = c,
                        freet_dateCreated = date, dateModified = date,
                        selfFlagged =
                          (map snd (filter (\<lambda>(flags, v). flags \<noteq> ''content'') (body req)) \<noteq> []),
                        flags = map snd (filter (\<lambda>(flags, v). flags \<noteq> ''content'') (body req))\<rparr>]\<rparr>)))"
proof -
  from findOneByUserId_props [OF assms(3)]
  have c: "castObjectId uid = Some (user_id user)"
    and f: "find (\<lambda>u. user_id u = user_id user) (users d) = Some user" by simp_all
  show ?thesis
    using assms(1,2,4) c f
    by (auto simp: POST_freets_def isUserLoggedIn_def isValidFreetContent_def truthy_def Let_def
        FreetCollection_addOne_def constructRawFreetResponse_def constructFreetResponse_def)
qed

theorem freet_content_limits_witness:
  "session_userId post_request = Some alice_id \<and> alice_id \<noteq> []
   \<and> UserCollection_findOneByUserId db_freets alice_id = Inr (Some (mkUser alice_id ''alice'' False [freet2_id]))
   \<and> map_of (body post_request) ''content'' = Some ''  hello world  ''
   \<and> length (trim ''  hello world  '') = 11
   \<and> fst (POST_freets freet3_id date0 lib0 post_request db_freets) =
       Json 201 (JObject [(''message'', JString ''Your freet was created successfully.''),
                          (''freet'', freetJson freet3_id ''alice'' ''  hello world  '')])
   \<and> freets (snd (POST_freets freet3_id date0 lib0 post_request db_freets)) =
       freets db_freets @
         [\<lparr>freet_id = freet3_id, freet_authorId = alice_id, content = ''  hello world  '',
           freet_dateCreated = date0, dateModified = date0, selfFlagged = True,
           flags = [''sensitive'']\<rparr>]"
proof -
  have s: "session_userId post_request = Some alice_id" by (simp add: post_request_def)
  have ne: "alice_id \<noteq> []" by (simp add: alice_id_def)
  have u: "UserCollection_findOneByUserId db_freets alice_id = Inr (Some (mkUser alice_id ''alice'' False [freet2_id]))"
    by (simp add: UserCollection_findOneByUserId_def cast_defs all_defs)
  have c: "map_of (body post_request) ''content'' = Some ''  hello world  ''"
    by (simp add: post_request_def)
  have t: "trim ''  hello world  '' = ''hello world''"
    by (simp add: trim_def isWhiteSpace_def)
  have b: "map snd (filter (\<lambda>(flags, v). flags \<noteq> ''content'') (body post_request)) = [''sensitive'']"
    by (simp add: post_request_def)
  have i: "user_id (mkUser alice_id ''alice'' False [freet2_id]) = alice_id"
    by (simp add: mkUser_def)
  from freet_content_limits [OF s ne u c, of freet3_id date0 lib0] obtain r where
    r: "POST_freets freet3_id date0 lib0 post_request db_freets =
         (Json 201 (JObject [(''message'', JString ''Your freet was created successfully.''), (''freet'', r)]),
          db_freets\<lparr>freets := freets db_freets @
            [\<lparr>freet_id = freet3_id, freet_authorId = alice_id, content = ''  hello world  '',
              freet_dateCreated = date0, dateModified = date0, selfFlagged = True,
              flags = [''sensitive'']\<rparr>]\<rparr>)"
    by (auto simp: t b i)
  have "fst (POST_freets freet3_id date0 lib0 post_request db_freets) =
       Json 201 (JObject [(''message'', JString ''Your freet was created successfully.''),
                          (''freet'', freetJson freet3_id ''alice'' ''  hello world  '')])"
    by (simp add: POST_freets_def isValidFreetContent_def t FreetCollection_addOne_def route_eval)
  with r s ne u c t show ?thesis by simp
qed

section \<open>Upvoting twice\<close>

text \<open>
  The duplicate guard reads the list on the User: whenever a logged-in stored user has the id
  of a stored freet in the list, spelt as the request spells it, upvoting that freet is
  answered 409 and writes nothing. So the same request sent again directly after a 201 is
  answered 409.
\<close>

lemma listed_freet_conflicts:
  assumes "session_userId req = Some uid" "uid \<noteq> []"
    and "params_freetId req = Some fid" "ObjectId_isValid (Some fid)"
    and "FreetCollection_findOne d fid = Inr (Some freet)"
    and "UserCollection_findOneByUserId d uid = Inr (Some author)"
    and "fid \<in> set (upvotedFreets author)"
  shows "POST_upvotes newId date L req d =
     (Json 409 (JObject [(''error'', JObject [(''upvoteAlreadyExists'',
        JString ''User has already upvoted this Freet.'')])]), d)"
  using assms
  by (simp add: POST_upvotes_def isUserLoggedIn_def isFreetExists_def isFreetUpvotedbyUser_def
      truthy_def Let_def)

lemma resent_upvote_conflicts:
  assumes "POST_upvotes newId date L req d = (Json 201 b, d')"
  shows "\<exists>uid fid freet_oid author.
           session_userId req = Some uid \<and> params_freetId req = Some fid
           \<and> castObjectId fid = Some freet_oid
           \<and> UserCollection_findOneByUserId d' uid = Inr (Some author)
           \<and> fid \<in> set (upvotedFreets author)
           \<and> upvotes d' = upvotes d @
               [\<lparr>upvote_id = newId, freetId = freet_oid, authorId = user_id author,
                 dateCreated = date\<rparr>]
           \<and> (\<forall>newId' date'. POST_upvotes newId' date' L req d' =
                (Json 409 (JObject [(''error'', JObject [(''upvoteAlreadyExists'',
                   JString ''User has already upvoted this Freet.'')])]), d'))"
proof -
  from assms have g1: "isUserLoggedIn req d = None"
    by (auto simp: POST_upvotes_def isUserLoggedIn_def split: option.splits if_splits)
  with assms have g2: "isFreetExists req d = None"
    by (auto simp: POST_upvotes_def isFreetExists_def Let_def
        split: option.splits if_splits sum.splits)
  with assms g1 have g3: "isFreetUpvotedbyUser req d = None"
    by (auto simp: POST_upvotes_def isFreetUpvotedbyUser_def
        split: option.splits if_splits sum.splits)
  from g1 obtain uid where uid: "session_userId req = Some uid" "uid \<noteq> []"
    by (auto simp: isUserLoggedIn_def truthy_def split: if_splits option.splits)
  from g3 uid obtain author0 fid where au: "UserCollection_findOneByUserId d uid = Inr (Some author0)"
    and fid: "params_freetId req = Some fid"
    by (auto simp: isFreetUpvotedbyUser_def split: option.splits if_splits sum.splits)
  from g2 fid obtain fr where fr: "ObjectId_isValid (Some fid)"
      "FreetCollection_findOne d fid = Inr (Some fr)"
    by (auto simp: isFreetExists_def Let_def split: option.splits if_splits sum.splits)
  from fr(2) obtain freet_oid where cast: "castObjectId fid = Some freet_oid"
    by (auto simp: FreetCollection_findOne_def split: option.splits)
  let ?up = "\<lparr>upvote_id = newId, freetId = freet_oid, authorId = user_id author0, dateCreated = date\<rparr>"
  let ?a' = "author0\<lparr>upvotedFreets := upvotedFreets author0 @ [fid]\<rparr>"
  let ?d1 = "(save_user ?a' d)\<lparr>upvotes := upvotes d @ [?up]\<rparr>"
  have add: "UpvoteCollection_addOne newId date fid uid d = (Inr (populate_authorId ?d1 ?up), ?d1)"
    using addOne_result [OF au cast, of newId date] by (simp add: Let_def)
  from assms g1 g2 g3 uid fid add have d': "d' = ?d1"
    by (auto simp: POST_upvotes_def split: sum.splits)
  have au': "UserCollection_findOneByUserId d' uid = Inr (Some ?a')"
    using findOneByUserId_save_user [OF au, of ?a'] by (simp add: d')
  have fr': "FreetCollection_findOne d' fid = Inr (Some fr)"
    using fr(2) by (simp add: d' FreetCollection_findOne_def save_user_def split: option.splits)
  have again: "POST_upvotes newId' date' L req d' =
      (Json 409 (JObject [(''error'', JObject [(''upvoteAlreadyExists'',
         JString ''User has already upvoted this Freet.'')])]), d')" for newId' date'
    by (rule listed_freet_conflicts [OF uid fid fr(1) fr' au']) simp
  have "upvotes d' = upvotes d @ [?up]" by (simp add: d' save_user_def)
  with uid fid cast au' again show ?thesis by auto
qed

text \<open>
  C4. The claim does not hold of the code. Alice upvotes her first freet (201). She
  deletes her second freet, which she never upvoted: \<^verbatim>\<open>indexOf\<close> is \<open>-1\<close>, and
  \<^verbatim>\<open>splice(-1, 1)\<close> takes the first freet off her list while her upvote stays stored. Her
  second upvote of the first freet passes the duplicate guard and is answered 201, not 409,
  and a second Upvote record of the same user for the same freet is stored.
\<close>

theorem second_upvote_after_freet_delete:
  "POST_upvotes upvote1_id date0 lib0 (mkRequest (Some alice_id) (Some freet1_id)) db_start =
     (Json 201 (JObject [(''message'', JString ''You have upvoted this freet successfully.''),
                         (''upvote'', upvoteJson upvote1_id freet1_id ''alice'')]),
      db_start\<lparr>users := [mkUser alice_id ''alice'' False [freet1_id]],
                upvotes := [mkUpvote upvote1_id freet1_id alice_id]\<rparr>)
   \<and> DELETE_freets (mkRequest (Some alice_id) (Some freet2_id))
     (db_start\<lparr>users := [mkUser alice_id ''alice'' False [freet1_id]],
               upvotes := [mkUpvote upvote1_id freet1_id alice_id]\<rparr>) =
     (Json 200 (JObject [(''message'', JString ''Your freet was deleted successfully.'')]),
      \<lparr>users = [mkUser alice_id ''alice'' False []],
       freets = [mkFreet freet1_id alice_id ''hello'' False],
       upvotes = [mkUpvote upvote1_id freet1_id alice_id]\<rparr>)
   \<and> POST_upvotes upvote2_id date0 lib0 (mkRequest (Some alice_id) (Some freet1_id))
     \<lparr>users = [mkUser alice_id ''alice'' False []],
      freets = [mkFreet freet1_id alice_id ''hello'' False],
      upvotes = [mkUpvote upvote1_id freet1_id alice_id]\<rparr> =
     (Json 201 (JObject [(''message'', JString ''You have upvoted this freet successfully.''),
                         (''upvote'', upvoteJson upvote2_id freet1_id ''alice'')]),
      \<lparr>users = [mkUser alice_id ''alice'' False [freet1_id]],
       freets = [mkFreet freet1_id alice_id ''hello'' False],
       upvotes = [mkUpvote upvote1_id freet1_id alice_id, mkUpvote upvote2_id freet1_id alice_id]\<rparr>)"
  by (simp add: POST_upvotes_def DELETE_freets_def route_eval)

text \<open>
  The guard also compares spellings, not ids: a first upvote that spells the freet id in upper
  case and a second that spells it in lower case are both answered 201.
\<close>

lemma second_upvote_other_spelling:
  "POST_upvotes upvote1_id date0 lib0 (mkRequest (Some alice_id) (Some freet1_upper)) db_start =
     (Json 201 (JObject [(''message'', JString ''You have upvoted this freet successfully.''),
                         (''upvote'', upvoteJson upvote1_id freet1_id ''alice'')]),
      db_start\<lparr>users := [mkUser alice_id ''alice'' False [freet1_upper]],
                upvotes := [mkUpvote upvote1_id freet1_id alice_id]\<rparr>)"
  "POST_upvotes upvote2_id date0 lib0 (mkRequest (Some alice_id) (Some freet1_id))
     (db_start\<lparr>users := [mkUser alice_id ''alice'' False [freet1_upper]],
                upvotes := [mkUpvote upvote1_id freet1_id alice_id]\<rparr>) =
     (Json 201 (JObject [(''message'', JString ''You have upvoted this freet successfully.''),
                         (''upvote'', upvoteJson upvote2_id freet1_id ''alice'')]),
      db_start\<lparr>users := [mkUser alice_id ''alice'' False [freet1_upper, freet1_id]],
                upvotes := [mkUpvote upvote1_id freet1_id alice_id,
                            mkUpvote upvote2_id freet1_id alice_id]\<rparr>)"
  by (simp_all add: POST_upvotes_def route_eval)

section \<open>Response envelopes\<close>

lemma GET_upvotes_shape:
  "GET_upvotes L req d = (Json st b, d') \<Longrightarrow>
     (st = 200 \<and> isBareArray b) \<or> (st \<in> {400, 404} \<and> isErrorEnvelope b)"
  by (auto simp: GET_upvotes_def isAuthorExists_def error_envelope_def isBareArray_def
      isErrorEnvelope_def split: if_splits option.splits sum.splits)

lemma GET_freets_shape:
  "GET_freets L req d = (Json st b, d') \<Longrightarrow>
     (st = 200 \<and> isBareArray b) \<or> (st \<in> {400, 404} \<and> isErrorEnvelope b)"
  by (auto simp: GET_freets_def isAuthorExists_def error_envelope_def isBareArray_def
      isErrorEnvelope_def split: if_splits option.splits sum.splits)

lemma GET_freet_shape:
  "GET_freet L req d = (Json st b, d') \<Longrightarrow>
     (st = 200 \<and> isMessageEntity b) \<or> (st \<in> {403, 404} \<and> isErrorEnvelope b)"
  by (auto simp: GET_freet_def isFreetExists_def isUserLoggedIn_def isUserAdult_def
      error_envelope_def isMessageEntity_def isErrorEnvelope_def Let_def
      split: if_splits option.splits sum.splits)

lemma POST_freets_shape:
  "POST_freets newId date L req d = (Json st b, d') \<Longrightarrow>
     (st = 201 \<and> isMessageEntity b) \<or> (st \<in> {400, 403, 413} \<and> isErrorEnvelope b)"
  by (auto simp: POST_freets_def isUserLoggedIn_def isValidFreetContent_def
      error_envelope_def isMessageEntity_def isErrorEnvelope_def Let_def
      split: if_splits option.splits sum.splits prod.splits)

lemma DELETE_freets_shape:
  "DELETE_freets req d = (Json st b, d') \<Longrightarrow>
     (st = 200 \<and> isMessageOnly b) \<or> (st \<in> {403, 404} \<and> isErrorEnvelope b)"
  by (auto simp: DELETE_freets_def isUserLoggedIn_def isFreetExists_def isValidFreetModifier_def
      error_envelope_def isMessageOnly_def isErrorEnvelope_def Let_def
      split: if_splits option.splits sum.splits prod.splits)

lemma POST_upvotes_shape:
  "POST_upvotes newId date L req d = (Json st b, d') \<Longrightarrow>
     (st = 201 \<and> isMessageEntity b) \<or> (st \<in> {403, 404, 409} \<and> isErrorEnvelope b)"
  by (auto simp: POST_upvotes_def isUserLoggedIn_def isFreetExists_def isFreetUpvotedbyUser_def
      error_envelope_def isMessageEntity_def isErrorEnvelope_def Let_def
      split: if_splits option.splits sum.splits prod.splits)

lemma DELETE_upvotes_shape:
  "DELETE_upvotes req d = (Json st b, d') \<Longrightarrow>
     (st = 200 \<and> isMessageOnly b) \<or> (st \<in> {400, 403, 404} \<and> isErrorEnvelope b)"
  by (auto simp: DELETE_upvotes_def isUserLoggedIn_def isUpvoteExists_def isValidUpvoteModifier_def
      error_envelope_def isMessageOnly_def isErrorEnvelope_def Let_def
      split: if_splits option.splits sum.splits prod.splits)

text \<open>
  C7. As stated the claim fails: \<^verbatim>\<open>GET /api/upvotes\<close> answers with a bare array of
  upvote responses, with no message.
\<close>

theorem upvote_listing_is_bare_array:
  "GET_upvotes lib0 (mkRequest None None) db_freets =
     (Json 200 (JArray [upvoteJson upvote1_id freet1_id ''bob'',
                        upvoteJson upvote2_id freet2_id ''alice'']), db_freets)
   \<and> \<not> isMessageEntity (JArray [upvoteJson upvote1_id freet1_id ''bob'',
                        upvoteJson upvote2_id freet2_id ''alice''])"
  by (simp add: GET_upvotes_def UpvoteCollection_findAll_def populate_authorId_def
      constructUpvoteResponse_def UserCollection_findOneByUserId_def isMessageEntity_def all_defs)

text \<open>
  C7. (amended) Whenever a route answers, the body has one of these shapes: the two
  listings answer 200 with a bare array; fetching one freet answers 200 and the two creating
  routes 201 with a message and an entity; the two deleting routes answer 200 with a message
  only; every answer with a status of 400 and above is \<^verbatim>\<open>{error}\<close>.
\<close>

theorem response_shapes:
  "(GET_upvotes L req d = (Json st b, d') \<longrightarrow>
      (st = 200 \<and> isBareArray b) \<or> (st \<in> {400, 404} \<and> isErrorEnvelope b))
   \<and> (GET_freets L req d = (Json st b, d') \<longrightarrow>
      (st = 200 \<and> isBareArray b) \<or> (st \<in> {400, 404} \<and> isErrorEnvelope b))
   \<and> (GET_freet L req d = (Json st b, d') \<longrightarrow>
      (st = 200 \<and> isMessageEntity b) \<or> (st \<in> {403, 404} \<and> isErrorEnvelope b))
   \<and> (POST_freets newId date L req d = (Json st b, d') \<longrightarrow>
      (st = 201 \<and> isMessageEntity b) \<or> (st \<in> {400, 403, 413} \<and> isErrorEnvelope b))
   \<and> (DELETE_freets req d = (Json st b, d') \<longrightarrow>
      (st = 200 \<and> isMessageOnly b) \<or> (st \<in> {403, 404} \<and> isErrorEnvelope b))
   \<and> (POST_upvotes newId date L req d = (Json st b, d') \<longrightarrow>
      (st = 201 \<and> isMessageEntity b) \<or> (st \<in> {403, 404, 409} \<and> isErrorEnvelope b))
   \<and> (DELETE_upvotes req d = (Json st b, d') \<longrightarrow>
      (st = 200 \<and> isMessageOnly b) \<or> (st \<in> {400, 403, 404} \<and> isErrorEnvelope b))"
  using GET_upvotes_shape [of L req d st b d'] GET_freets_shape [of L req d st b d']
    GET_freet_shape [of L req d st b d'] POST_freets_shape [of newId date L req d st b d']
    DELETE_freets_shape [of req d st b d'] POST_upvotes_shape [of newId date L req d st b d']
    DELETE_upvotes_shape [of req d st b d']
  by blast

theorem response_shapes_witness:
  "GET_upvotes lib0 (mkRequest None None) db_freets =
     (Json 200 (JArray [upvoteJson upvote1_id freet1_id ''bob'',
                        upvoteJson upvote2_id freet2_id ''alice'']), db_freets)
   \<and> isBareArray (JArray [upvoteJson upvote1_id freet1_id ''bob'',
                        upvoteJson upvote2_id freet2_id ''alice''])"
proof -
  have h: "GET_upvotes lib0 (mkRequest None None) db_freets =
     (Json 200 (JArray [upvoteJson upvote1_id freet1_id ''bob'',
                        upvoteJson upvote2_id freet2_id ''alice'']), db_freets)"
    by (simp add: GET_upvotes_def UpvoteCollection_findAll_def populate_authorId_def
      constructUpvoteResponse_def UserCollection_findOneByUserId_def all_defs)
  from response_shapes [of lib0 "mkRequest None None" db_freets 200 _ db_freets] h
  show ?thesis by simp
qed

end
